theory Spec2Isabelle
  imports Complex_Main "HOL-Library.Multiset"
begin

section \<open>GUIObject: the cached value and its range (Source/Objects/GUIObject.cpp)\<close>

text \<open>
  A \<open>GUIObject\<close> keeps the last value it knows of its interpreter object in the member
  \<open>value\<close>, and reads the range from the parameters \<open>min\<close> and \<open>max\<close>. The C++ type of
  all three is \<open>float\<close>; the model uses \<open>real\<close>, that is exact arithmetic on finite
  numbers: rounding, infinities and NaN are outside the model. Comparison, \<open>std::min\<close>
  and \<open>std::max\<close> are exact on finite floats, so the clamping of \<open>setValueOriginal\<close> is
  modelled exactly; the products and quotients of the scaled accessors are modelled
  up to rounding.

  Work handed to the interpreter's execution context (\<open>pd->enqueueFunction\<close>), work
  handed back to the message thread (\<open>MessageManager::callAsync\<close>) and messages sent to
  the interpreter (\<open>enqueueMessages\<close>, \<open>enqueueDirectMessages\<close>) are queues of the state.
\<close>

datatype message =
    GuiMouse real  \<comment> \<open>\<open>processor.enqueueMessages("gui", "mouse", {x})\<close>\<close>
  | Direct real    \<comment> \<open>\<open>cnv->pd->enqueueDirectMessages(ptr, value)\<close>\<close>

datatype pd_task = ReadValue
  \<comment> \<open>the function \<open>updateValue\<close> enqueues on the interpreter's context\<close>

datatype ui_task = StoreValue real
  \<comment> \<open>the callback \<open>[_this, v]\<close> the interpreter-side function hands to the message thread\<close>

record GUIObject =
  g_value :: real          \<comment> \<open>\<open>GUIObject::value\<close>\<close>
  g_min :: real            \<comment> \<open>\<open>static_cast<float>(min.getValue())\<close>\<close>
  g_max :: real            \<comment> \<open>\<open>static_cast<float>(max.getValue())\<close>\<close>
  edited :: bool
  alive :: bool            \<comment> \<open>what the \<open>SafePointer\<close> of a deferred callback sees\<close>
  pd_value :: real         \<comment> \<open>what \<open>getValue()\<close> reads from the interpreter object\<close>
  pd_queue :: "pd_task list"
  ui_queue :: "ui_task list"
  sent :: "message list"

definition setValue :: "real \<Rightarrow> GUIObject \<Rightarrow> GUIObject" where
  "setValue v s = s\<lparr>sent := sent s @ [Direct v]\<rparr>"

definition getValueOriginal :: "GUIObject \<Rightarrow> real" where
  "getValueOriginal s = g_value s"

definition setValueOriginal :: "real \<Rightarrow> GUIObject \<Rightarrow> GUIObject" where
  "setValueOriginal v0 s =
     (let minimum = g_min s;
          maximum = g_max s;
          v = (if minimum \<noteq> maximum \<or> minimum \<noteq> 0 \<or> maximum \<noteq> 0
               then (if minimum < maximum then max (min v0 maximum) minimum
                     else max (min v0 minimum) maximum)
               else v0);
          s1 = s\<lparr>g_value := v\<rparr>
      in setValue (g_value s1) s1)"



definition startEdition :: "GUIObject \<Rightarrow> GUIObject" where
  "startEdition s =
     (let s1 = s\<lparr>edited := True\<rparr>;
          s2 = s1\<lparr>sent := sent s1 @ [GuiMouse 1]\<rparr>
      in s2\<lparr>g_value := pd_value s2\<rparr>)"

definition stopEdition :: "GUIObject \<Rightarrow> GUIObject" where
  "stopEdition s =
     (let s1 = s\<lparr>edited := False\<rparr>
      in s1\<lparr>sent := sent s1 @ [GuiMouse 0]\<rparr>)"

definition updateValue :: "GUIObject \<Rightarrow> GUIObject" where
  "updateValue s =
     (if \<not> edited s then s\<lparr>pd_queue := pd_queue s @ [ReadValue]\<rparr> else s)"

text \<open>
  The interpreter's context runs the oldest function of its queue: the one enqueued by
  \<open>updateValue\<close> returns when the widget is gone, reads \<open>getValue()\<close> otherwise, and hands
  a callback to the message thread when the cached value differs.
\<close>

definition run_pd_task :: "GUIObject \<Rightarrow> GUIObject" where
  "run_pd_task s =
     (case pd_queue s of
        [] \<Rightarrow> s
      | ReadValue # q \<Rightarrow>
          (let s1 = s\<lparr>pd_queue := q\<rparr>
           in if \<not> alive s1 then s1
              else (let v = pd_value s1
                    in if g_value s1 \<noteq> v then s1\<lparr>ui_queue := ui_queue s1 @ [StoreValue v]\<rparr>
                       else s1)))"

text \<open>The message thread runs the oldest callback: it stores the value read, if the
  widget still lives (\<open>update()\<close> repaints, which changes nothing of this state).\<close>

definition run_ui_task :: "GUIObject \<Rightarrow> GUIObject" where
  "run_ui_task s =
     (case ui_queue s of
        [] \<Rightarrow> s
      | StoreValue v # q \<Rightarrow>
          (let s1 = s\<lparr>ui_queue := q\<rparr>
           in if alive s1 then s1\<lparr>g_value := v\<rparr> else s1))"

text \<open>What can happen to a widget while the user edits it: calls of \<open>updateValue\<close>, the
  interpreter changing its own value, and either context running its queue.\<close>

datatype event = UpdateValue | InterpreterSets real | RunPd | RunUi

fun step :: "event \<Rightarrow> GUIObject \<Rightarrow> GUIObject" where
  "step UpdateValue s = updateValue s"
| "step (InterpreterSets x) s = s\<lparr>pd_value := x\<rparr>"
| "step RunPd s = run_pd_task s"
| "step RunUi s = run_ui_task s"

fun run :: "event list \<Rightarrow> GUIObject \<Rightarrow> GUIObject" where
  "run [] s = s"
| "run (e # es) s = run es (step e s)"

text \<open>The interval the specification clamps to, written without the code's
  \<open>std::min\<close>/\<open>std::max\<close>: the nearest point of \<open>[lo, hi]\<close>.\<close>

definition clamped_to :: "real \<Rightarrow> real \<Rightarrow> real \<Rightarrow> real" where
  "clamped_to lo hi v = (if v < lo then lo else if hi < v then hi else v)"

definition example_widget :: "real \<Rightarrow> real \<Rightarrow> GUIObject" where
  "example_widget lo hi =
     \<lparr>g_value = 0, g_min = lo, g_max = hi, edited = False, alive = True, pd_value = 0,
      pd_queue = [], ui_queue = [], sent = []\<rparr>"

section \<open>The canvas display list (Source/Objects/GUIObject.cpp)\<close>

text \<open>
  The interpreter keeps the objects of a canvas in a singly linked list: the canvas field
  \<open>gl_list\<close> points to the first \<open>t_gobj\<close>, and each \<open>t_gobj\<close> points to the next one
  with \<open>g_next\<close>. A non-null \<open>t_gobj*\<close> is an address, a pointer is an optional address
  (\<open>None\<close> is the null pointer), and the memory is the function that gives each node its
  \<open>g_next\<close>. The counters \<open>count\<close> (here \<open>cnt\<close>), \<open>pos\<close>, \<open>idx\<close> and \<open>i\<close> are C \<open>int\<close>s
  that count the nodes of a list; they are modelled as unbounded integers, so a list of
  more than \<open>2^31 - 1\<close> nodes is outside the model.
\<close>

type_synonym addr = nat

record canvas =
  gl_list :: "addr option"
  g_next :: "addr \<Rightarrow> addr option"

datatype fault =
    AssertionFailed   \<comment> \<open>an \<open>assert\<close> of the source does not hold\<close>
  | NullDereference   \<comment> \<open>the source reads a field through a null pointer\<close>

text \<open>
  The first loop of \<open>changePos\<close>:
  \<^verbatim>\<open>while (link != nullptr && link != obj) { prev = link; link = link->g_next; count++; }\<close>
  It runs forever on a cyclic list that does not hold \<open>obj\<close>; not returning is \<open>None\<close>.
\<close>

partial_function (option) find_link ::
  "(addr \<Rightarrow> addr option) \<Rightarrow> addr \<Rightarrow> addr option \<Rightarrow> addr option \<Rightarrow> int \<Rightarrow>
     (addr option \<times> addr option \<times> int) option" where
  "find_link nxt obj link prev cnt =
     (case link of
        None \<Rightarrow> Some (link, prev, cnt)
      | Some l \<Rightarrow>
          if l = obj then Some (link, prev, cnt)
          else find_link nxt obj (nxt l) link (cnt + 1))"

text \<open>
  The last loop of \<open>changePos\<close>, entered with a non-null \<open>node\<close>:
  \<^verbatim>\<open>for (int i = 0; i < pos - 1 && node->g_next != 0; i++) node = node->g_next;\<close>
\<close>

function advance :: "(addr \<Rightarrow> addr option) \<Rightarrow> int \<Rightarrow> int \<Rightarrow> addr \<Rightarrow> addr" where
  "advance nxt pos i node =
     (if i < pos - 1
      then (case nxt node of None \<Rightarrow> node | Some n \<Rightarrow> advance nxt pos (i + 1) n)
      else node)"
  by pat_completeness auto
termination
  by (relation "measure (\<lambda>(nxt, pos, i, node). nat (pos - 1 - i))") auto

text \<open>
  \<open>changePos(cnv, obj, pos)\<close>. An \<open>assert\<close> of the source is a check of the model, and
  reading \<open>g_next\<close> through a null pointer is a fault. The parameters \<open>cnv\<close> and \<open>obj\<close>
  are non-null by their types here, so of the first assertion \<open>pos >= 0\<close> is left.
  \<open>root\<close> (here \<open>root'\<close>) is a local copy of \<open>cnv->gl_list\<close>: the source assigns to
  \<open>root\<close> and to the parameter \<open>obj\<close>, never to \<open>cnv->gl_list\<close>, so the model never
  changes \<open>gl_list\<close> either.
\<close>

definition changePos :: "canvas \<Rightarrow> addr \<Rightarrow> int \<Rightarrow> (fault + canvas) option" where
  "changePos cnv obj pos =
     (if \<not> pos \<ge> 0 then Some (Inl AssertionFailed)
      else
        case find_link (g_next cnv) obj (gl_list cnv) None 0 of
          None \<Rightarrow> None
        | Some (link, prev, cnt) \<Rightarrow>
            (case link of
               None \<Rightarrow> Some (Inr cnv)
             | Some l \<Rightarrow>
                 if cnt = pos then Some (Inr cnv)
                 else
                   (case (if cnt = 0
                          then (if link = gl_list cnv
                                then Inr (g_next cnv l, cnv)
                                else Inl AssertionFailed)
                          else (case prev of
                                  None \<Rightarrow> Inl AssertionFailed
                                | Some p \<Rightarrow>
                                    Inr (gl_list cnv,
                                         cnv\<lparr>g_next := (g_next cnv)(p := g_next cnv l)\<rparr>)))
                    of
                      Inl e \<Rightarrow> Some (Inl e)
                    | Inr (root', cnv1) \<Rightarrow>
                        if pos = 0
                        then Some (Inr (cnv1\<lparr>g_next := (g_next cnv1)(l := root')\<rparr>))
                        else
                          (case root' of
                             None \<Rightarrow> Some (Inl NullDereference)
                           | Some r \<Rightarrow>
                               (let node = advance (g_next cnv1) pos 0 r;
                                    cnv2 = cnv1\<lparr>g_next := (g_next cnv1)(l := g_next cnv1 node)\<rparr>
                                in Some (Inr (cnv2\<lparr>g_next := (g_next cnv2)(node := Some l)\<rparr>)))))))"

text \<open>
  The loop of \<open>moveToFront\<close>, which counts the nodes from \<open>idx = -1\<close>:
  \<^verbatim>\<open>while (y2 != nullptr) { y2 = y2->g_next; idx++; }\<close>
\<close>

partial_function (option) last_index ::
  "(addr \<Rightarrow> addr option) \<Rightarrow> addr option \<Rightarrow> int \<Rightarrow> int option" where
  "last_index nxt y2 idx =
     (case y2 of
        None \<Rightarrow> Some idx
      | Some y \<Rightarrow> last_index nxt (nxt y) (idx + 1))"

definition moveToFront :: "canvas \<Rightarrow> addr \<Rightarrow> (fault + canvas) option" where
  "moveToFront cnv y =
     (case last_index (g_next cnv) (gl_list cnv) (- 1) of
        None \<Rightarrow> None
      | Some idx \<Rightarrow> if idx < 0 then Some (Inr cnv) else changePos cnv y idx)"

text \<open>The nodes of the list that starts at a pointer, in order: \<open>chain nxt p xs\<close> says
  that following \<open>g_next\<close> from \<open>p\<close> visits exactly \<open>xs\<close> and then reaches null.\<close>

primrec chain :: "(addr \<Rightarrow> addr option) \<Rightarrow> addr option \<Rightarrow> addr list \<Rightarrow> bool" where
  "chain nxt p [] = (p = None)"
| "chain nxt p (x # xs) = (p = Some x \<and> chain nxt (nxt x) xs)"

text \<open>The canvas whose display list holds the given nodes in order.\<close>

fun links :: "addr list \<Rightarrow> addr \<Rightarrow> addr option" where
  "links [] = (\<lambda>a. None)"
| "links [x] = (\<lambda>a. None)"
| "links (x # y # ys) = (links (y # ys))(x := Some y)"

definition canvas_of :: "addr list \<Rightarrow> canvas" where
  "canvas_of xs = \<lparr>gl_list = (case xs of [] \<Rightarrow> None | x # _ \<Rightarrow> Some x), g_next = links xs\<rparr>"

section \<open>The widget factory (Source/Objects/GUIObject.cpp)\<close>

text \<open>
  \<open>createGui\<close> reads from the interpreter object behind \<open>ptr\<close> its class name and, for
  some classes, one more field or query. The record holds what the function can read;
  the C++ reads the fields through casts of the one pointer (\<open>t_text*\<close>, \<open>t_fake_gatom*\<close>,
  \<open>t_canvas*\<close>, \<open>t_gobj*\<close>). The enumerations are those of the interpreter's header
  \<open>m_pd.h\<close>.
\<close>

datatype te_type = T_TEXT | T_OBJECT | T_MESSAGE | T_ATOM

datatype t_atomtype =
    A_NULL | A_FLOAT | A_SYMBOL | A_POINTER | A_SEMI | A_COMMA | A_DEFFLOAT | A_DEFSYM
  | A_DOLLAR | A_DOLLSYM | A_GIMME | A_CANT

record pd_object =
  class_name :: string
    \<comment> \<open>\<open>libpd_get_object_class_name(ptr)\<close>\<close>
  te_type :: te_type
    \<comment> \<open>\<open>static_cast<t_text*>(ptr)->te_type\<close>\<close>
  is_text_object :: bool
    \<comment> \<open>\<open>libpd_is_text_object(ptr)\<close>\<close>
  a_flavor :: t_atomtype
    \<comment> \<open>\<open>static_cast<t_fake_gatom*>(ptr)->a_flavor\<close>\<close>
  first_class_name :: "string option option"
    \<comment> \<open>\<open>static_cast<t_canvas*>(ptr)->gl_list\<close>: \<open>None\<close> when it is null, else the name
        \<open>c->c_name->s_name\<close> of the class \<open>c\<close> of the first node, \<open>Some None\<close> when \<open>c\<close> or
        \<open>c->c_name\<close> is null\<close>
  gl_isgraph :: bool
    \<comment> \<open>\<open>static_cast<t_canvas*>(ptr)->gl_isgraph\<close>\<close>
  is_scalar_class :: bool
    \<comment> \<open>\<open>static_cast<t_gobj*>(ptr)->g_pd == scalar_class\<close>\<close>
  checkobject :: bool
    \<comment> \<open>\<open>pd_checkobject(static_cast<t_pd*>(ptr))\<close> is not null: the object is patchable\<close>

datatype KeyObjectType = Key | KeyName | KeyUp

text \<open>The concrete widget classes. \<open>TextObject\<close> carries its optional third constructor
  argument: \<open>Some False\<close> for \<open>TextObject(ptr, parent, false)\<close>, \<open>None\<close> for
  \<open>TextObject(ptr, parent)\<close>.\<close>

datatype widget =
    BangObject | ButtonObject | SliderObject | ToggleObject | NumberObject
  | NumboxTildeObject | RadioObject | CanvasObject | VUMeterObject
  | TextObject "bool option" | CommentObject | CycloneCommentObject | MessageObject
  | MousePadObject | MouseObject | KeyboardObject | PictureObject | TextDefineObject
  | FloatAtomObject | SymbolAtomObject | ListObject | ArrayObject | GraphOnParent
  | SubpatchObject | ArrayDefineObject | CloneObject | ScalarObject
  | KeyObject KeyObjectType | OscopeObject | ScopeObject | FunctionObject
  | CanvasActiveObject | CanvasMouseObject | CanvasVisibleObject | CanvasZoomObject
  | CanvasEditObject | NonPatchable

definition createGui :: "pd_object \<Rightarrow> widget" where
  "createGui ptr =
     (let name = class_name ptr in
      if name = ''bng'' then BangObject
      else if name = ''button'' then ButtonObject
      else if name = ''hsl'' \<or> name = ''vsl'' \<or> name = ''slider'' then SliderObject
      else if name = ''tgl'' then ToggleObject
      else if name = ''nbx'' then NumberObject
      else if name = ''numbox~'' then NumboxTildeObject
      else if name = ''vradio'' \<or> name = ''hradio'' then RadioObject
      else if name = ''cnv'' then CanvasObject
      else if name = ''vu'' then VUMeterObject
      else if name = ''text''
        then (if te_type ptr = T_OBJECT then TextObject (Some False) else CommentObject)
      else if name = ''comment'' then CycloneCommentObject
      else if name = ''message'' \<and> is_text_object ptr then MessageObject
      else if name = ''pad'' then MousePadObject
      else if name = ''mouse'' then MouseObject
      else if name = ''keyboard'' then KeyboardObject
      else if name = ''pic'' then PictureObject
      else if name = ''text define'' then TextDefineObject
      else if name = ''gatom''
        then (if a_flavor ptr = A_FLOAT then FloatAtomObject
              else if a_flavor ptr = A_SYMBOL then SymbolAtomObject
              else if a_flavor ptr = A_NULL then ListObject
              else TextObject None)
      else if name = ''canvas'' \<or> name = ''graph''
        then (case first_class_name ptr of
                Some c \<Rightarrow>
                  if c = Some ''array'' then ArrayObject
                  else if gl_isgraph ptr then GraphOnParent
                  else SubpatchObject
              | None \<Rightarrow> if gl_isgraph ptr then GraphOnParent else SubpatchObject)
      else if name = ''array define'' then ArrayDefineObject
      else if name = ''clone'' then CloneObject
      else if name = ''pd'' then SubpatchObject
      else if name = ''scalar''
        then (if is_scalar_class ptr then ScalarObject else TextObject None)
      else if name = ''key'' then KeyObject Key
      else if name = ''keyname'' then KeyObject KeyName
      else if name = ''keyup'' then KeyObject KeyUp
      else if name = ''oscope~'' then OscopeObject
      else if name = ''scope~'' then ScopeObject
      else if name = ''function'' then FunctionObject
      else if name = ''canvas.active'' then CanvasActiveObject
      else if name = ''canvas.mouse'' then CanvasMouseObject
      else if name = ''canvas.vis'' then CanvasVisibleObject
      else if name = ''canvas.zoom'' then CanvasZoomObject
      else if name = ''canvas.edit'' then CanvasEditObject
      else if \<not> checkobject ptr then NonPatchable
      else TextObject None)"

text \<open>The class names that some branch of \<open>createGui\<close> compares the name with.\<close>

definition known_classes :: "string list" where
  "known_classes =
     [''bng'', ''button'', ''hsl'', ''vsl'', ''slider'', ''tgl'', ''nbx'', ''numbox~'',
      ''vradio'', ''hradio'', ''cnv'', ''vu'', ''text'', ''comment'', ''message'', ''pad'',
      ''mouse'', ''keyboard'', ''pic'', ''text define'', ''gatom'', ''canvas'', ''graph'',
      ''array define'', ''clone'', ''pd'', ''scalar'', ''key'', ''keyname'', ''keyup'',
      ''oscope~'', ''scope~'', ''function'', ''canvas.active'', ''canvas.mouse'',
      ''canvas.vis'', ''canvas.zoom'', ''canvas.edit'']"

text \<open>
  The sub-kind tag of an object: what \<open>createGui\<close> reads beside the class name, which
  depends on the class. For the classes it decides by name alone there is no tag; for a
  name it does not know (and for a \<open>message\<close> that is no text object) the tag is whether
  the object is patchable.
\<close>

datatype sub_kind =
    NoTag
  | TextType te_type
  | Flavor t_atomtype
  | GraphKind "string option option" bool
  | ScalarClass bool
  | Patchable bool

definition sub_kind_tag :: "pd_object \<Rightarrow> sub_kind" where
  "sub_kind_tag ptr =
     (let name = class_name ptr in
      if name = ''text'' then TextType (te_type ptr)
      else if name = ''gatom'' then Flavor (a_flavor ptr)
      else if name = ''canvas'' \<or> name = ''graph''
        then GraphKind (first_class_name ptr) (gl_isgraph ptr)
      else if name = ''scalar'' then ScalarClass (is_scalar_class ptr)
      else if name = ''message''
        then (if is_text_object ptr then NoTag else Patchable (checkobject ptr))
      else if name \<in> set known_classes then NoTag
      else Patchable (checkobject ptr))"

text \<open>The parent \<open>Object\<close> of a widget, as far as the constructor of \<open>NonPatchable\<close>
  touches it: \<open>object->setVisible(false)\<close>.\<close>

record Object =
  visible :: bool

definition NonPatchable_ctor :: "Object \<Rightarrow> Object" where
  "NonPatchable_ctor object = object\<lparr>visible := False\<rparr>"

definition example_object :: "string \<Rightarrow> pd_object" where
  "example_object name =
     \<lparr>class_name = name, te_type = T_OBJECT, is_text_object = False, a_flavor = A_FLOAT,
      first_class_name = None, gl_isgraph = False, is_scalar_class = False,
      checkobject = True\<rparr>"

section \<open>GPU resource caches (NVGImage and NVGFramebuffer)\<close>

text \<open>
  Rectangles are \<open>juce::Rectangle<int>\<close>: a position and a size. The coordinates are C
  \<open>int\<close>s whose overflow is undefined; the model uses unbounded integers.
\<close>

record rect =
  r_x :: int
  r_y :: int
  r_w :: int
  r_h :: int

record SubImage =
  imageId :: int
  bounds :: rect

datatype PixelFormat = UnknownFormat | RGB | ARGB | SingleChannel

text \<open>A \<open>juce::Image\<close>, as far as \<open>loadJUCEImage\<close> reads it: its format and its size
  (\<open>image.getBounds()\<close> is the rectangle of that size at the origin).\<close>

record Image =
  format :: PixelFormat
  width :: int
  height :: int

definition getBounds :: "Image \<Rightarrow> rect" where
  "getBounds image0 = \<lparr>r_x = 0, r_y = 0, r_w = width image0, r_h = height image0\<rparr>"

text \<open>The fields of \<open>NVGImage\<close> (the callback \<open>onImageInvalidate\<close> is left out: none of
  the functions below calls it). A context pointer is an optional address.\<close>

record NVGImage =
  nvg :: "nat option"
  subImages :: "SubImage list"
  totalWidth :: int
  totalHeight :: int
  isDirty :: bool

text \<open>The default constructor \<open>NVGImage()\<close>, with the default member initialisers.\<close>

definition NVGImage_new :: NVGImage where
  "NVGImage_new =
     \<lparr>nvg = None, subImages = [], totalWidth = 0, totalHeight = 0, isDirty = False\<rparr>"

definition NVGImage_isValid :: "NVGImage \<Rightarrow> bool" where
  "NVGImage_isValid img = (subImages img \<noteq> [])"

definition NVGImage_needsUpdate :: "NVGImage \<Rightarrow> int \<Rightarrow> int \<Rightarrow> bool" where
  "NVGImage_needsUpdate img w h =
     (subImages img = [] \<or> w \<noteq> totalWidth img \<or> h \<noteq> totalHeight img \<or> isDirty img)"

definition NVGImage_setDirty :: "NVGImage \<Rightarrow> NVGImage" where
  "NVGImage_setDirty img = img\<lparr>isDirty := True\<rparr>"

text \<open>
  The texture a tile gets: \<open>nvgCreateImageARGB\<close> or \<open>nvgCreateImageAlpha\<close> by the format
  of the image, and the default id 0 for any other format. The backend is the parameter
  \<open>create\<close>: the id it returns for a tile with the given bounds.
\<close>

definition new_SubImage :: "(rect \<Rightarrow> int) \<Rightarrow> PixelFormat \<Rightarrow> rect \<Rightarrow> SubImage" where
  "new_SubImage create fmt b =
     \<lparr>imageId = (if fmt = ARGB then create b
                  else if fmt = SingleChannel then create b
                  else 0),
      bounds = b\<rparr>"

text \<open>
  The two loops of \<open>loadJUCEImage\<close> that cut a large image into tiles:
  \<^verbatim>\<open>while (y < totalHeight) { int h = std::min(textureSizeLimit, totalHeight - y); ...
       y += textureSizeLimit; ...; subImages.add(subImage); }\<close>
  inside
  \<^verbatim>\<open>while (x < totalWidth) { int y = 0; int w = std::min(textureSizeLimit, totalWidth - x);
       ...; x += textureSizeLimit; }\<close>
  With a limit that is not positive they do not end.
\<close>

partial_function (option) tile_rows ::
  "(rect \<Rightarrow> int) \<Rightarrow> PixelFormat \<Rightarrow> int \<Rightarrow> int \<Rightarrow> int \<Rightarrow> int \<Rightarrow> int \<Rightarrow>
     SubImage list \<Rightarrow> SubImage list option" where
  "tile_rows create fmt textureSizeLimit totalH x w y subs =
     (if y < totalH
      then (let h = min textureSizeLimit (totalH - y);
                b = \<lparr>r_x = x, r_y = y, r_w = w, r_h = h\<rparr>
            in tile_rows create fmt textureSizeLimit totalH x w (y + textureSizeLimit)
                 (subs @ [new_SubImage create fmt b]))
      else Some subs)"

partial_function (option) tile_columns ::
  "(rect \<Rightarrow> int) \<Rightarrow> PixelFormat \<Rightarrow> int \<Rightarrow> int \<Rightarrow> int \<Rightarrow> int \<Rightarrow>
     SubImage list \<Rightarrow> SubImage list option" where
  "tile_columns create fmt textureSizeLimit totalW totalH x subs =
     (if x < totalW
      then (case tile_rows create fmt textureSizeLimit totalH x
                   (min textureSizeLimit (totalW - x)) 0 subs of
              None \<Rightarrow> None
            | Some subs1 \<Rightarrow>
                tile_columns create fmt textureSizeLimit totalW totalH
                  (x + textureSizeLimit) subs1)
      else Some subs)"

text \<open>
  \<open>loadJUCEImage(context, image)\<close>. \<open>maximumTextureSize\<close> is the value of the static
  variable of that name after the backend has been asked (0 when it was not). The
  function stores the size and the context, then either updates the one texture it has
  (same bounds), or makes one texture, or tiles. It never writes \<open>isDirty\<close>.
\<close>

definition loadJUCEImage ::
  "int \<Rightarrow> (rect \<Rightarrow> int) \<Rightarrow> nat option \<Rightarrow> Image \<Rightarrow> NVGImage \<Rightarrow> NVGImage option" where
  "loadJUCEImage maximumTextureSize create context image0 img =
     (let img1 = img\<lparr>totalWidth := width image0, totalHeight := height image0, nvg := context\<rparr>;
          textureSizeLimit = (if maximumTextureSize = 0 then 8192 else maximumTextureSize)
      in if totalWidth img1 \<le> textureSizeLimit \<and> totalHeight img1 \<le> textureSizeLimit
         then (case subImages img1 of
                 s0 # rest \<Rightarrow>
                   if bounds s0 = getBounds image0 \<and> nvg img1 = context then Some img1
                   else Some (img1\<lparr>subImages :=
                                [new_SubImage create (format image0) (getBounds image0)]\<rparr>)
               | [] \<Rightarrow>
                   Some (img1\<lparr>subImages :=
                           [new_SubImage create (format image0) (getBounds image0)]\<rparr>))
         else (case tile_columns create (format image0) textureSizeLimit
                      (totalWidth img1) (totalHeight img1) 0 [] of
                 None \<Rightarrow> None
               | Some subs \<Rightarrow> Some (img1\<lparr>subImages := subs\<rparr>)))"

text \<open>
  The constructor \<open>NVGImage(nvg, width, height, renderCall)\<close>: it renders into a new
  \<open>juce::Image\<close> of the given size and format and loads it into the new object.
\<close>

definition NVGImage_create ::
  "int \<Rightarrow> (rect \<Rightarrow> int) \<Rightarrow> nat option \<Rightarrow> Image \<Rightarrow> NVGImage option" where
  "NVGImage_create maximumTextureSize create context image0 =
     loadJUCEImage maximumTextureSize create context image0 NVGImage_new"

text \<open>
  The move assignment \<open>this = std::move(other)\<close> of two different objects, which is how
  a caller replaces a cached image by a newly constructed one. It takes over the context,
  the textures and the size, and empties \<open>other\<close>; it does not assign \<open>isDirty\<close>. The
  result is the pair of \<open>this\<close> and \<open>other\<close> afterwards.
\<close>

definition NVGImage_assign :: "NVGImage \<Rightarrow> NVGImage \<Rightarrow> NVGImage \<times> NVGImage" where
  "NVGImage_assign this other =
     (this\<lparr>nvg := nvg other, subImages := subImages other,
           totalWidth := totalWidth other, totalHeight := totalHeight other\<rparr>,
      other\<lparr>subImages := []\<rparr>)"

text \<open>
  The fields of \<open>NVGFramebuffer\<close>. \<open>nvg\<close>, \<open>fbWidth\<close> and \<open>fbHeight\<close> have no initialiser
  in the class, so a new framebuffer holds indeterminate values there: they are the
  parameters of the constructor's model.
\<close>

record NVGFramebuffer =
  fb_nvg :: "nat option"
  fb :: "nat option"
  fbWidth :: int
  fbHeight :: int
  fbDirty :: bool

definition NVGFramebuffer_new :: "nat option \<Rightarrow> int \<Rightarrow> int \<Rightarrow> NVGFramebuffer" where
  "NVGFramebuffer_new n0 w0 h0 =
     \<lparr>fb_nvg = n0, fb = None, fbWidth = w0, fbHeight = h0, fbDirty = False\<rparr>"

definition NVGFramebuffer_isValid :: "NVGFramebuffer \<Rightarrow> bool" where
  "NVGFramebuffer_isValid f = (fb f \<noteq> None)"

definition NVGFramebuffer_needsUpdate :: "NVGFramebuffer \<Rightarrow> int \<Rightarrow> int \<Rightarrow> bool" where
  "NVGFramebuffer_needsUpdate f w h =
     (fb f = None \<or> w \<noteq> fbWidth f \<or> h \<noteq> fbHeight f \<or> fbDirty f)"

definition NVGFramebuffer_setDirty :: "NVGFramebuffer \<Rightarrow> NVGFramebuffer" where
  "NVGFramebuffer_setDirty f = f\<lparr>fbDirty := True\<rparr>"

text \<open>\<open>bind(ctx, width, height)\<close>; \<open>created\<close> is what \<open>nvgCreateFramebuffer\<close> returns when
  it is called (null when the backend fails).\<close>

definition bind_fb :: "nat option \<Rightarrow> nat option \<Rightarrow> int \<Rightarrow> int \<Rightarrow> NVGFramebuffer \<Rightarrow> NVGFramebuffer" where
  "bind_fb created ctx w h f =
     (if fb f = None \<or> fbWidth f \<noteq> w \<or> fbHeight f \<noteq> h
      then f\<lparr>fb_nvg := ctx, fb := created, fbWidth := w, fbHeight := h\<rparr>
      else f)"

text \<open>\<open>renderToFramebuffer(nvg, width, height, renderCallback)\<close>: bind, draw, unbind, and
  clear the dirty flag (the drawing is the caller's and does not touch these fields).\<close>

definition renderToFramebuffer ::
  "nat option \<Rightarrow> nat option \<Rightarrow> int \<Rightarrow> int \<Rightarrow> NVGFramebuffer \<Rightarrow> NVGFramebuffer" where
  "renderToFramebuffer created ctx w h f = (bind_fb created ctx w h f)\<lparr>fbDirty := False\<rparr>"

definition example_image :: Image where
  "example_image = \<lparr>format = ARGB, width = 10, height = 10\<rparr>"

definition example_loaded :: NVGImage where
  "example_loaded =
     \<lparr>nvg = Some 1,
      subImages = [\<lparr>imageId = 1, bounds = \<lparr>r_x = 0, r_y = 0, r_w = 10, r_h = 10\<rparr>\<rparr>],
      totalWidth = 10, totalHeight = 10, isDirty = False\<rparr>"

section \<open>The invalidation bridge (NVGSurface::InvalidationListener)\<close>

text \<open>
  The class \<open>juce::Rectangle<int>\<close> is not among the sources. \<open>invalidate\<close> uses its
  \<open>getIntersection\<close>, \<open>isEmpty\<close> and \<open>expanded\<close>, and the accumulator its union. The
  four definitions below are modelled from section 4.3 of the specification (the
  requested rectangle is intersected with the bounds, tested for being non-empty, and
  unioned into the accumulator) and follow the arithmetic of the JUCE class.
\<close>

text \<open>Modelled from the spec: \<open>Rectangle::isEmpty\<close> (missing), "non-empty" in section
  4.3. A rectangle is empty when its width or its height is not positive.\<close>

definition isEmpty :: "rect \<Rightarrow> bool" where
  "isEmpty r = (r_w r \<le> 0 \<or> r_h r \<le> 0)"

text \<open>Modelled from the spec: \<open>Rectangle::getIntersection\<close> (missing), "intersects the
  requested rectangle with the originating component's visible bounds" in section 4.3.
  Two rectangles that do not meet give the default rectangle, which is empty.\<close>

definition getIntersection :: "rect \<Rightarrow> rect \<Rightarrow> rect" where
  "getIntersection a b =
     (let nx = max (r_x a) (r_x b);
          ny = max (r_y a) (r_y b);
          nw = min (r_x a + r_w a) (r_x b + r_w b) - nx;
          nh = min (r_y a + r_h a) (r_y b + r_h b) - ny
      in if nw \<ge> 0 \<and> nh \<ge> 0 then \<lparr>r_x = nx, r_y = ny, r_w = nw, r_h = nh\<rparr>
         else \<lparr>r_x = 0, r_y = 0, r_w = 0, r_h = 0\<rparr>)"

text \<open>Modelled from the spec: \<open>Rectangle::expanded\<close> (missing); the specification does
  not speak of it, the source calls \<open>b.expanded(2)\<close>. The rectangle grows by \<open>delta\<close> on
  each of its four sides.\<close>

definition expanded :: "int \<Rightarrow> rect \<Rightarrow> rect" where
  "expanded delta r =
     \<lparr>r_x = r_x r - delta, r_y = r_y r - delta,
      r_w = max 0 (r_w r + delta * 2), r_h = max 0 (r_h r + delta * 2)\<rparr>"

text \<open>Modelled from the spec: \<open>Rectangle::getUnion\<close> (missing), "unioned into the
  surface's accumulator" in section 4.3 and "an accumulating rectangle (not a set)" in
  section 3. The union is the smallest rectangle that contains both, and an empty
  operand is ignored.\<close>

definition getUnion :: "rect \<Rightarrow> rect \<Rightarrow> rect" where
  "getUnion a b =
     (if isEmpty b then a
      else if isEmpty a then b
      else (let nx = min (r_x a) (r_x b);
                ny = min (r_y a) (r_y b)
            in \<lparr>r_x = nx, r_y = ny,
                r_w = max (r_x a + r_w a) (r_x b + r_w b) - nx,
                r_h = max (r_y a + r_h a) (r_y b + r_h b) - ny\<rparr>))"

text \<open>
  The component a listener watches, as far as \<open>invalidate\<close> reads it: its local bounds,
  whether it is visible, and where a rectangle of its coordinate space lies on the
  surface. The last is
  \<open>surface.getLocalArea(originComponent, r.toFloat()).getSmallestIntegerContainer()\<close>,
  which depends on the place of the component and on the zoom and pan in force; the
  model takes it as a function of the component.
\<close>

record Component =
  getLocalBounds :: rect
  isVisible :: bool
  toSurface :: "rect \<Rightarrow> rect"

record InvalidationListener =
  originComponent :: Component
  passEvents :: bool

record NVGSurface =
  invalidArea :: rect
  renderThroughImage :: bool

text \<open>
  Modelled from the spec: \<open>NVGSurface::invalidateArea\<close> is declared in the sources and
  defined elsewhere. Section 4.3 says the rectangle is "unioned into the surface's
  accumulator", and section 3 that the accumulator is one rectangle.
\<close>

definition invalidateArea :: "rect \<Rightarrow> NVGSurface \<Rightarrow> NVGSurface" where
  "invalidateArea area surface = surface\<lparr>invalidArea := getUnion (invalidArea surface) area\<rparr>"

text \<open>\<open>InvalidationListener::invalidate(rect)\<close> returns whether the caller must still
  repaint, and changes the surface.\<close>

definition invalidate :: "InvalidationListener \<Rightarrow> rect \<Rightarrow> NVGSurface \<Rightarrow> bool \<times> NVGSurface" where
  "invalidate l r surface =
     (let b = getIntersection r (getLocalBounds (originComponent l));
          surface1 =
            (if isVisible (originComponent l) \<and> \<not> isEmpty b
             then invalidateArea (toSurface (originComponent l) (expanded 2 b)) surface
             else surface)
      in (renderThroughImage surface1 \<or> passEvents l, surface1))"

text \<open>A sequence of calls, each by a listener with a rectangle, in order.\<close>

fun invalidate_calls :: "(InvalidationListener \<times> rect) list \<Rightarrow> NVGSurface \<Rightarrow> NVGSurface" where
  "invalidate_calls [] surface = surface"
| "invalidate_calls ((l, r) # calls) surface = invalidate_calls calls (snd (invalidate l r surface))"

text \<open>
  What the claim and its amendment speak of. \<open>clipped\<close> are the requested rectangles,
  each intersected with the bounds of its component, of the calls that count (component
  visible, intersection not empty). \<open>contributions\<close> are the same rectangles, each grown
  by 2 on every side and mapped to the surface. \<open>bounding_box\<close> is the smallest rectangle
  that contains all rectangles of a non-empty list.
\<close>

definition counts :: "InvalidationListener \<times> rect \<Rightarrow> bool" where
  "counts c =
     (isVisible (originComponent (fst c)) \<and>
      \<not> isEmpty (getIntersection (snd c) (getLocalBounds (originComponent (fst c)))))"

definition clipped :: "(InvalidationListener \<times> rect) list \<Rightarrow> rect list" where
  "clipped calls =
     map (\<lambda>c. getIntersection (snd c) (getLocalBounds (originComponent (fst c))))
       (filter counts calls)"

definition contributions :: "(InvalidationListener \<times> rect) list \<Rightarrow> rect list" where
  "contributions calls =
     map (\<lambda>c. toSurface (originComponent (fst c))
                (expanded 2 (getIntersection (snd c) (getLocalBounds (originComponent (fst c))))))
       (filter counts calls)"

definition getRight :: "rect \<Rightarrow> int" where
  "getRight r = r_x r + r_w r"

definition getBottom :: "rect \<Rightarrow> int" where
  "getBottom r = r_y r + r_h r"

definition bounding_box :: "rect list \<Rightarrow> rect" where
  "bounding_box rs =
     \<lparr>r_x = Min (set (map r_x rs)),
      r_y = Min (set (map r_y rs)),
      r_w = Max (set (map getRight rs)) - Min (set (map r_x rs)),
      r_h = Max (set (map getBottom rs)) - Min (set (map r_y rs))\<rparr>"

definition example_listener :: InvalidationListener where
  "example_listener =
     \<lparr>originComponent =
        \<lparr>getLocalBounds = \<lparr>r_x = 0, r_y = 0, r_w = 100, r_h = 100\<rparr>,
         isVisible = True, toSurface = (\<lambda>r. r)\<rparr>,
      passEvents = False\<rparr>"

definition cleared_surface :: NVGSurface where
  "cleared_surface =
     \<lparr>invalidArea = \<lparr>r_x = 0, r_y = 0, r_w = 0, r_h = 0\<rparr>, renderThroughImage = False\<rparr>"

text \<open>One call as a function on the surface, for folding over a sequence of calls.\<close>

definition call_step :: "InvalidationListener \<times> rect \<Rightarrow> NVGSurface \<Rightarrow> NVGSurface" where
  "call_step c surface = snd (invalidate (fst c) (snd c) surface)"

section \<open>Theorems about the cached value\<close>

lemma getValueOriginal_setValueOriginal:
  "getValueOriginal (setValueOriginal v s) =
     (if g_min s \<noteq> g_max s \<or> g_min s \<noteq> 0 \<or> g_max s \<noteq> 0
      then (if g_min s < g_max s then max (min v (g_max s)) (g_min s)
            else max (min v (g_min s)) (g_max s))
      else v)"
  by (simp add: getValueOriginal_def setValueOriginal_def setValue_def Let_def)

text \<open>
  Claim C3. For every widget and every value \<open>v\<close>: \<open>setValueOriginal v\<close> followed by
  \<open>getValueOriginal\<close> returns \<open>v\<close> clamped to \<open>[min, max]\<close> when \<open>min < max\<close>, clamped to
  \<open>[max, min]\<close> when \<open>min > max\<close>, and \<open>v\<close> itself when \<open>min\<close> and \<open>max\<close> are both zero.
\<close>

theorem setValueOriginal_roundtrip:
  "(g_min s < g_max s \<longrightarrow>
      getValueOriginal (setValueOriginal v s) = clamped_to (g_min s) (g_max s) v) \<and>
   (g_max s < g_min s \<longrightarrow>
      getValueOriginal (setValueOriginal v s) = clamped_to (g_max s) (g_min s) v) \<and>
   (g_min s = 0 \<and> g_max s = 0 \<longrightarrow> getValueOriginal (setValueOriginal v s) = v)"
  by (auto simp add: getValueOriginal_setValueOriginal clamped_to_def)

theorem setValueOriginal_roundtrip_witness:
  "g_min (example_widget 0 5) < g_max (example_widget 0 5) \<and>
   getValueOriginal (setValueOriginal 7 (example_widget 0 5)) = 5 \<and>
   g_max (example_widget 5 0) < g_min (example_widget 5 0) \<and>
   getValueOriginal (setValueOriginal (-3) (example_widget 5 0)) = 0 \<and>
   g_min (example_widget 0 0) = 0 \<and> g_max (example_widget 0 0) = 0 \<and>
   getValueOriginal (setValueOriginal 7 (example_widget 0 0)) = 7"
  using setValueOriginal_roundtrip [of "example_widget 0 5" 7]
        setValueOriginal_roundtrip [of "example_widget 5 0" "-3"]
        setValueOriginal_roundtrip [of "example_widget 0 0" 7]
  by (simp add: example_widget_def clamped_to_def)








lemma step_while_edited:
  assumes "edited s" "pd_queue s = []" "ui_queue s = []"
  shows "edited (step e s) \<and> pd_queue (step e s) = [] \<and> ui_queue (step e s) = [] \<and>
         g_value (step e s) = g_value s"
  using assms by (cases e) (simp_all add: updateValue_def run_pd_task_def run_ui_task_def)

lemma run_while_edited:
  "edited s \<Longrightarrow> pd_queue s = [] \<Longrightarrow> ui_queue s = [] \<Longrightarrow>
     edited (run es s) \<and> g_value (run es s) = g_value s"
proof (induction es arbitrary: s)
  case Nil
  then show ?case by simp
next
  case (Cons e es)
  from step_while_edited [OF Cons.prems, of e]
  have st: "edited (step e s)" "pd_queue (step e s) = []" "ui_queue (step e s) = []"
    "g_value (step e s) = g_value s" by simp_all
  from Cons.IH [OF st(1) st(2) st(3)] st(4) show ?case by simp
qed

lemma step_keeps_edited: "edited (step e s) = edited s"
  by (cases e)
    (auto simp add: updateValue_def run_pd_task_def run_ui_task_def Let_def
      split: list.splits pd_task.splits ui_task.splits)

lemma run_skips_updateValue:
  "edited s \<Longrightarrow> run es s = run (filter (\<lambda>e. e \<noteq> UpdateValue) es) s"
proof (induction es arbitrary: s)
  case Nil
  then show ?case by simp
next
  case (Cons e es)
  from Cons.prems have ed: "edited (step e s)" by (simp add: step_keeps_edited)
  show ?case
  proof (cases "e = UpdateValue")
    case True
    with Cons.prems have "step e s = s" by (simp add: updateValue_def)
    with True Cons.IH [OF Cons.prems] show ?thesis by simp
  next
    case False
    with Cons.IH [OF ed] show ?thesis by simp
  qed
qed

text \<open>
  Claim C2. While the edited flag is set, a call of \<open>updateValue\<close> does nothing at all, so
  between \<open>startEdition\<close> and the next \<open>stopEdition\<close> no such call changes the cached
  value, whatever the interpreter does to its own value and however the two contexts run
  their queues (no read being under way when the edit starts). Once \<open>stopEdition\<close> has
  cleared the flag, \<open>updateValue\<close> makes the interpreter's context read the interpreter's
  value, and the cached value is replaced by it only if the two differ. The calls of
  \<open>updateValue\<close> made during an edit can be struck from any course of events without
  changing the state it ends in.
\<close>

theorem updateValue_edited_gate:
  "(edited s \<longrightarrow> updateValue s = s) \<and>
   run es (startEdition s) = run (filter (\<lambda>e. e \<noteq> UpdateValue) es) (startEdition s) \<and>
   (pd_queue s = [] \<and> ui_queue s = [] \<longrightarrow>
      edited (run es (startEdition s)) \<and>
      g_value (run es (startEdition s)) = g_value (startEdition s)) \<and>
   (alive s \<and> pd_queue s = [] \<and> ui_queue s = [] \<longrightarrow>
      \<not> edited (stopEdition s) \<and>
      g_value (run_ui_task (run_pd_task (updateValue (stopEdition s)))) = pd_value s \<and>
      (g_value s = pd_value s \<longrightarrow>
         run_pd_task (updateValue (stopEdition s)) = stopEdition s) \<and>
      (g_value s \<noteq> pd_value s \<longrightarrow>
         ui_queue (run_pd_task (updateValue (stopEdition s))) = [StoreValue (pd_value s)]))"
proof (intro conjI impI)
  assume "edited s"
  then show "updateValue s = s" by (simp add: updateValue_def)
next
  have "edited (startEdition s)" by (simp add: startEdition_def Let_def)
  then show "run es (startEdition s) =
      run (filter (\<lambda>e. e \<noteq> UpdateValue) es) (startEdition s)"
    by (rule run_skips_updateValue)
next
  assume q: "pd_queue s = [] \<and> ui_queue s = []"
  have "edited (startEdition s)" "pd_queue (startEdition s) = []"
    "ui_queue (startEdition s) = []"
    using q by (simp_all add: startEdition_def Let_def)
  from run_while_edited [OF this, of es]
  show "edited (run es (startEdition s))"
    and "g_value (run es (startEdition s)) = g_value (startEdition s)" by simp_all
next
  assume "alive s \<and> pd_queue s = [] \<and> ui_queue s = []"
  then show "\<not> edited (stopEdition s)"
    by (simp add: stopEdition_def Let_def)
next
  assume "alive s \<and> pd_queue s = [] \<and> ui_queue s = []"
  then show "g_value (run_ui_task (run_pd_task (updateValue (stopEdition s)))) = pd_value s"
    by (simp add: stopEdition_def updateValue_def run_pd_task_def run_ui_task_def Let_def)
next
  assume "alive s \<and> pd_queue s = [] \<and> ui_queue s = []" and "g_value s = pd_value s"
  then show "run_pd_task (updateValue (stopEdition s)) = stopEdition s"
    by (simp add: stopEdition_def updateValue_def run_pd_task_def Let_def)
next
  assume "alive s \<and> pd_queue s = [] \<and> ui_queue s = []" and "g_value s \<noteq> pd_value s"
  then show "ui_queue (run_pd_task (updateValue (stopEdition s))) = [StoreValue (pd_value s)]"
    by (simp add: stopEdition_def updateValue_def run_pd_task_def Let_def)
qed

theorem updateValue_edited_gate_witness:
  "updateValue (startEdition (example_widget 0 127)) = startEdition (example_widget 0 127) \<and>
   g_value (run [InterpreterSets 5, UpdateValue, RunPd, RunUi]
              (startEdition (example_widget 0 127))) = 0 \<and>
   g_value (run_ui_task (run_pd_task (updateValue (stopEdition
      (run [InterpreterSets 5] (startEdition (example_widget 0 127))))))) = 5"
  using updateValue_edited_gate [of "startEdition (example_widget 0 127)" "[]"]
        updateValue_edited_gate [of "example_widget 0 127"
          "[InterpreterSets 5, UpdateValue, RunPd, RunUi]"]
        updateValue_edited_gate [of "run [InterpreterSets 5] (startEdition (example_widget 0 127))" "[]"]
  by (simp add: example_widget_def startEdition_def Let_def)

section \<open>Theorems about the display list\<close>

lemma moveToFront_empty: "gl_list cnv = None \<Longrightarrow> moveToFront cnv y = Some (Inr cnv)"
  by (simp add: moveToFront_def last_index.simps)

lemma moveToFront_single:
  "gl_list cnv = Some y \<Longrightarrow> g_next cnv y = None \<Longrightarrow> moveToFront cnv y = Some (Inr cnv)"
  by (simp add: moveToFront_def last_index.simps changePos_def find_link.simps)

text \<open>
  Claim C8. \<open>moveToFront\<close> leaves the display list as it is when the list is empty (the
  index it computes is negative and the function returns) and when the object is the
  only node of the list (it is found at the target position): the canvas and every
  \<open>g_next\<close> are the same afterwards.
\<close>

theorem moveToFront_noop:
  "(gl_list cnv = None \<longrightarrow> moveToFront cnv y = Some (Inr cnv)) \<and>
   (gl_list cnv = Some y \<and> g_next cnv y = None \<longrightarrow> moveToFront cnv y = Some (Inr cnv))"
  by (simp add: moveToFront_empty moveToFront_single)

theorem moveToFront_noop_witness:
  "moveToFront (canvas_of []) 7 = Some (Inr (canvas_of [])) \<and>
   moveToFront (canvas_of [7]) 7 = Some (Inr (canvas_of [7]))"
  using moveToFront_noop [of "canvas_of []" 7] moveToFront_noop [of "canvas_of [7]" 7]
  by (simp add: canvas_of_def)

text \<open>
  Claim C9 says that after \<open>changePos\<close> the list reachable from \<open>gl_list\<close> holds the same
  nodes as before, also when \<open>obj\<close> is the head. The code does not keep that. On the list
  1, 2, 3, moving the head 1 to position 2 (which is what \<open>moveToFront\<close> asks for) relinks
  the nodes as 2, 3, 1, but \<open>gl_list\<close> still points to 1, whose \<open>g_next\<close> is now null: the
  list reachable from \<open>gl_list\<close> is 1 alone. Moving 2 to position 0 leaves 1, 3 reachable.
  In both cases the source updates its local \<open>root\<close> and never \<open>cnv->gl_list\<close>.
\<close>

theorem changePos_loses_nodes:
  "chain (g_next (canvas_of [1, 2, 3])) (gl_list (canvas_of [1, 2, 3])) [1, 2, 3] \<and>
   changePos (canvas_of [1, 2, 3]) 1 2 =
     Some (Inr \<lparr>gl_list = Some 1, g_next = (\<lambda>a. None)(2 := Some 3, 3 := Some 1)\<rparr>) \<and>
   chain ((\<lambda>a. None)(2 := Some 3, 3 := Some (1::nat))) (Some 1) [1] \<and>
   moveToFront (canvas_of [1, 2, 3]) 1 = changePos (canvas_of [1, 2, 3]) 1 2 \<and>
   changePos (canvas_of [1, 2, 3]) 2 0 =
     Some (Inr \<lparr>gl_list = Some 1, g_next = (\<lambda>a. None)(1 := Some 3, 2 := Some 1)\<rparr>) \<and>
   chain ((\<lambda>a. None)(1 := Some 3, 2 := Some (1::nat))) (Some 1) [1, 3]"
  by (simp add: changePos_def moveToFront_def canvas_of_def find_link.simps last_index.simps
      fun_upd_twist)

section \<open>Theorems about the widget factory\<close>

lemma createGui_by_name:
  "class_name p = ''bng'' \<Longrightarrow> createGui p = BangObject"
  "class_name p = ''button'' \<Longrightarrow> createGui p = ButtonObject"
  "class_name p = ''hsl'' \<Longrightarrow> createGui p = SliderObject"
  "class_name p = ''vsl'' \<Longrightarrow> createGui p = SliderObject"
  "class_name p = ''slider'' \<Longrightarrow> createGui p = SliderObject"
  "class_name p = ''tgl'' \<Longrightarrow> createGui p = ToggleObject"
  "class_name p = ''nbx'' \<Longrightarrow> createGui p = NumberObject"
  "class_name p = ''numbox~'' \<Longrightarrow> createGui p = NumboxTildeObject"
  "class_name p = ''vradio'' \<Longrightarrow> createGui p = RadioObject"
  "class_name p = ''hradio'' \<Longrightarrow> createGui p = RadioObject"
  "class_name p = ''cnv'' \<Longrightarrow> createGui p = CanvasObject"
  "class_name p = ''vu'' \<Longrightarrow> createGui p = VUMeterObject"
  "class_name p = ''text'' \<Longrightarrow>
     createGui p = (if te_type p = T_OBJECT then TextObject (Some False) else CommentObject)"
  "class_name p = ''comment'' \<Longrightarrow> createGui p = CycloneCommentObject"
  "class_name p = ''message'' \<Longrightarrow>
     createGui p = (if is_text_object p then MessageObject
                    else if checkobject p then TextObject None else NonPatchable)"
  "class_name p = ''pad'' \<Longrightarrow> createGui p = MousePadObject"
  "class_name p = ''mouse'' \<Longrightarrow> createGui p = MouseObject"
  "class_name p = ''keyboard'' \<Longrightarrow> createGui p = KeyboardObject"
  "class_name p = ''pic'' \<Longrightarrow> createGui p = PictureObject"
  "class_name p = ''text define'' \<Longrightarrow> createGui p = TextDefineObject"
  "class_name p = ''gatom'' \<Longrightarrow>
     createGui p = (if a_flavor p = A_FLOAT then FloatAtomObject
                    else if a_flavor p = A_SYMBOL then SymbolAtomObject
                    else if a_flavor p = A_NULL then ListObject else TextObject None)"
  "class_name p = ''array define'' \<Longrightarrow> createGui p = ArrayDefineObject"
  "class_name p = ''clone'' \<Longrightarrow> createGui p = CloneObject"
  "class_name p = ''pd'' \<Longrightarrow> createGui p = SubpatchObject"
  "class_name p = ''scalar'' \<Longrightarrow>
     createGui p = (if is_scalar_class p then ScalarObject else TextObject None)"
  "class_name p = ''key'' \<Longrightarrow> createGui p = KeyObject Key"
  "class_name p = ''keyname'' \<Longrightarrow> createGui p = KeyObject KeyName"
  "class_name p = ''keyup'' \<Longrightarrow> createGui p = KeyObject KeyUp"
  "class_name p = ''oscope~'' \<Longrightarrow> createGui p = OscopeObject"
  "class_name p = ''scope~'' \<Longrightarrow> createGui p = ScopeObject"
  "class_name p = ''function'' \<Longrightarrow> createGui p = FunctionObject"
  "class_name p = ''canvas.active'' \<Longrightarrow> createGui p = CanvasActiveObject"
  "class_name p = ''canvas.mouse'' \<Longrightarrow> createGui p = CanvasMouseObject"
  "class_name p = ''canvas.vis'' \<Longrightarrow> createGui p = CanvasVisibleObject"
  "class_name p = ''canvas.zoom'' \<Longrightarrow> createGui p = CanvasZoomObject"
  "class_name p = ''canvas.edit'' \<Longrightarrow> createGui p = CanvasEditObject"
  by (simp_all add: createGui_def)

lemma createGui_canvas_graph:
  "class_name p = ''canvas'' \<or> class_name p = ''graph'' \<Longrightarrow>
     createGui p =
       (case first_class_name p of
          Some c \<Rightarrow> if c = Some ''array'' then ArrayObject
                    else if gl_isgraph p then GraphOnParent else SubpatchObject
        | None \<Rightarrow> if gl_isgraph p then GraphOnParent else SubpatchObject)"
  by (auto simp add: createGui_def)

lemma createGui_unknown:
  "class_name p \<notin> set known_classes \<Longrightarrow>
     createGui p = (if checkobject p then TextObject None else NonPatchable)"
  by (simp add: createGui_def known_classes_def)

lemma sub_kind_tag_by_name:
  "class_name p = ''text'' \<Longrightarrow> sub_kind_tag p = TextType (te_type p)"
  "class_name p = ''gatom'' \<Longrightarrow> sub_kind_tag p = Flavor (a_flavor p)"
  "class_name p = ''canvas'' \<Longrightarrow> sub_kind_tag p = GraphKind (first_class_name p) (gl_isgraph p)"
  "class_name p = ''graph'' \<Longrightarrow> sub_kind_tag p = GraphKind (first_class_name p) (gl_isgraph p)"
  "class_name p = ''scalar'' \<Longrightarrow> sub_kind_tag p = ScalarClass (is_scalar_class p)"
  "class_name p = ''message'' \<Longrightarrow>
     sub_kind_tag p = (if is_text_object p then NoTag else Patchable (checkobject p))"
  by (simp_all add: sub_kind_tag_def)

lemma sub_kind_tag_unknown:
  "class_name p \<notin> set known_classes \<Longrightarrow> sub_kind_tag p = Patchable (checkobject p)"
  by (simp add: sub_kind_tag_def known_classes_def)

lemma createGui_same_known:
  assumes "class_name p \<in> set known_classes" "class_name q = class_name p"
    "sub_kind_tag p = sub_kind_tag q"
  shows "createGui p = createGui q"
proof -
  define n where "n = class_name p"
  have p: "class_name p = n" and q: "class_name q = n" using assms(2) by (simp_all add: n_def)
  from assms(1) have
    "n = ''bng'' \<or> n = ''button'' \<or> n = ''hsl'' \<or> n = ''vsl'' \<or> n = ''slider'' \<or>
     n = ''tgl'' \<or> n = ''nbx'' \<or> n = ''numbox~'' \<or> n = ''vradio'' \<or> n = ''hradio'' \<or>
     n = ''cnv'' \<or> n = ''vu'' \<or> n = ''text'' \<or> n = ''comment'' \<or> n = ''message'' \<or>
     n = ''pad'' \<or> n = ''mouse'' \<or> n = ''keyboard'' \<or> n = ''pic'' \<or> n = ''text define'' \<or>
     n = ''gatom'' \<or> n = ''canvas'' \<or> n = ''graph'' \<or> n = ''array define'' \<or>
     n = ''clone'' \<or> n = ''pd'' \<or> n = ''scalar'' \<or> n = ''key'' \<or> n = ''keyname'' \<or>
     n = ''keyup'' \<or> n = ''oscope~'' \<or> n = ''scope~'' \<or> n = ''function'' \<or>
     n = ''canvas.active'' \<or> n = ''canvas.mouse'' \<or> n = ''canvas.vis'' \<or>
     n = ''canvas.zoom'' \<or> n = ''canvas.edit''"
    unfolding known_classes_def n_def by simp
  then show ?thesis
    using p q assms(3)
    apply (elim disjE)
    apply (simp_all only: createGui_by_name createGui_canvas_graph sub_kind_tag_by_name
         sub_kind.inject simp_thms split: if_splits)
    apply simp_all
    done
qed

lemma createGui_same:
  assumes "class_name p = class_name q" "sub_kind_tag p = sub_kind_tag q"
  shows "createGui p = createGui q"
proof (cases "class_name p \<in> set known_classes")
  case True
  from createGui_same_known [OF True assms(1) [symmetric] assms(2)] show ?thesis .
next
  case False
  with assms(1) have "class_name q \<notin> set known_classes" by simp
  with False assms(2) show ?thesis
    by (simp add: createGui_unknown sub_kind_tag_unknown)
qed

text \<open>
  Claim C1. \<open>createGui\<close> is a function of the class name and the sub-kind tag: class
  \<open>tgl\<close> gives the toggle widget and \<open>bng\<close> the bang widget; class \<open>text\<close> gives the plain
  text-object widget when \<open>te_type\<close> is \<open>T_OBJECT\<close> and the comment widget otherwise; class
  \<open>gatom\<close> gives the float-atom widget for flavor \<open>A_FLOAT\<close>, the symbol-atom widget for
  \<open>A_SYMBOL\<close> and the list widget for \<open>A_NULL\<close>; and two objects with the same class name
  and the same sub-kind tag get the same widget class, whatever else differs.
\<close>

theorem createGui_scenarios:
  "(class_name p = ''tgl'' \<longrightarrow> createGui p = ToggleObject) \<and>
   (class_name p = ''bng'' \<longrightarrow> createGui p = BangObject) \<and>
   (class_name p = ''text'' \<and> te_type p = T_OBJECT \<longrightarrow> createGui p = TextObject (Some False)) \<and>
   (class_name p = ''text'' \<and> te_type p \<noteq> T_OBJECT \<longrightarrow> createGui p = CommentObject) \<and>
   (class_name p = ''gatom'' \<and> a_flavor p = A_FLOAT \<longrightarrow> createGui p = FloatAtomObject) \<and>
   (class_name p = ''gatom'' \<and> a_flavor p = A_SYMBOL \<longrightarrow> createGui p = SymbolAtomObject) \<and>
   (class_name p = ''gatom'' \<and> a_flavor p = A_NULL \<longrightarrow> createGui p = ListObject) \<and>
   (class_name p = class_name q \<and> sub_kind_tag p = sub_kind_tag q \<longrightarrow>
      createGui p = createGui q)"
  using createGui_same [of p q] by (simp add: createGui_by_name)

theorem createGui_scenarios_witness:
  "createGui (example_object ''tgl'') = ToggleObject \<and>
   createGui (example_object ''bng'') = BangObject \<and>
   createGui (example_object ''text'') = TextObject (Some False) \<and>
   createGui ((example_object ''text'')\<lparr>te_type := T_TEXT\<rparr>) = CommentObject \<and>
   createGui (example_object ''gatom'') = FloatAtomObject \<and>
   createGui ((example_object ''gatom'')\<lparr>a_flavor := A_SYMBOL\<rparr>) = SymbolAtomObject \<and>
   createGui ((example_object ''gatom'')\<lparr>a_flavor := A_NULL\<rparr>) = ListObject \<and>
   createGui ((example_object ''gatom'')\<lparr>gl_isgraph := True\<rparr>) =
     createGui (example_object ''gatom'')"
  using createGui_scenarios [of "example_object ''tgl''" "example_object ''tgl''"]
    createGui_scenarios [of "example_object ''bng''" "example_object ''bng''"]
    createGui_scenarios [of "example_object ''text''" "example_object ''text''"]
    createGui_scenarios [of "(example_object ''text'')\<lparr>te_type := T_TEXT\<rparr>"
       "example_object ''text''"]
    createGui_scenarios [of "example_object ''gatom''" "example_object ''gatom''"]
    createGui_scenarios [of "(example_object ''gatom'')\<lparr>a_flavor := A_SYMBOL\<rparr>"
       "example_object ''gatom''"]
    createGui_scenarios [of "(example_object ''gatom'')\<lparr>a_flavor := A_NULL\<rparr>"
       "example_object ''gatom''"]
    createGui_scenarios [of "(example_object ''gatom'')\<lparr>gl_isgraph := True\<rparr>"
       "example_object ''gatom''"]
  by (simp add: example_object_def sub_kind_tag_by_name)

text \<open>
  Claim C7. \<open>createGui\<close> returns a widget for every object (each path of the source ends
  in a \<open>return\<close>; the model is a total function). When the class name is none of the
  names the function knows, a patchable object gets the generic text-object widget
  \<open>TextObject\<close> and an object that \<open>pd_checkobject\<close> rejects gets \<open>NonPatchable\<close>, whose
  constructor makes the parent object invisible.
\<close>

theorem createGui_fallback:
  "(\<exists>w. createGui p = w) \<and>
   (class_name p \<notin> set known_classes \<and> checkobject p \<longrightarrow> createGui p = TextObject None) \<and>
   (class_name p \<notin> set known_classes \<and> \<not> checkobject p \<longrightarrow> createGui p = NonPatchable) \<and>
   \<not> visible (NonPatchable_ctor object)"
  by (simp add: createGui_unknown NonPatchable_ctor_def)

theorem createGui_fallback_witness:
  "class_name (example_object ''osc~'') \<notin> set known_classes \<and>
   checkobject (example_object ''osc~'') \<and>
   createGui (example_object ''osc~'') = TextObject None \<and>
   \<not> checkobject ((example_object ''osc~'')\<lparr>checkobject := False\<rparr>) \<and>
   createGui ((example_object ''osc~'')\<lparr>checkobject := False\<rparr>) = NonPatchable \<and>
   \<not> visible (NonPatchable_ctor \<lparr>visible = True\<rparr>)"
  using createGui_fallback [of "example_object ''osc~''" "\<lparr>visible = True\<rparr>"]
    createGui_fallback [of "(example_object ''osc~'')\<lparr>checkobject := False\<rparr>" "\<lparr>visible = True\<rparr>"]
  by (simp add: example_object_def known_classes_def)

section \<open>Theorems about the GPU resource caches\<close>

lemma NVGFramebuffer_lifecycle:
  "NVGFramebuffer_needsUpdate (NVGFramebuffer_new n0 w0 h0) w h"
  "NVGFramebuffer_isValid (renderToFramebuffer created ctx w h f) \<Longrightarrow> created \<noteq> None \<Longrightarrow>
     \<not> NVGFramebuffer_needsUpdate (renderToFramebuffer created ctx w h f) w h"
  "NVGFramebuffer_needsUpdate (NVGFramebuffer_setDirty f) w h"
  "w \<noteq> fbWidth f \<or> h \<noteq> fbHeight f \<Longrightarrow> NVGFramebuffer_needsUpdate f w h"
  by (auto simp add: NVGFramebuffer_needsUpdate_def NVGFramebuffer_new_def
      renderToFramebuffer_def bind_fb_def NVGFramebuffer_setDirty_def NVGFramebuffer_isValid_def)

lemma NVGImage_lifecycle:
  "NVGImage_needsUpdate NVGImage_new w h"
  "NVGImage_needsUpdate (NVGImage_setDirty img) w h"
  "w \<noteq> totalWidth img \<or> h \<noteq> totalHeight img \<Longrightarrow> NVGImage_needsUpdate img w h"
  by (auto simp add: NVGImage_needsUpdate_def NVGImage_new_def NVGImage_setDirty_def)

lemma loadJUCEImage_keeps_isDirty:
  "loadJUCEImage m create ctx image0 img = Some img' \<Longrightarrow> isDirty img' = isDirty img"
  by (auto simp add: loadJUCEImage_def Let_def split: list.splits if_splits option.splits)

text \<open>
  Claim C6 says that both caches report \<open>needsUpdate\<close> on first use, no longer after a
  successful create with the same size, and again after \<open>setDirty\<close> or for another size.
  \<open>NVGFramebuffer\<close> does that: \<open>renderToFramebuffer\<close> clears \<open>fbDirty\<close>. \<open>NVGImage\<close> does
  not: nothing clears \<open>isDirty\<close>, so once \<open>setDirty\<close> has been called a successful
  \<open>loadJUCEImage\<close> of the same size leaves \<open>needsUpdate\<close> true, and so does assigning a
  newly constructed image. The theorem runs both caches through create, \<open>setDirty\<close>,
  create at size 10 by 10.
\<close>

theorem NVGImage_stays_dirty:
  "NVGImage_needsUpdate NVGImage_new 10 10 \<and>
   loadJUCEImage 0 (\<lambda>b. 1) (Some 1) example_image NVGImage_new = Some example_loaded \<and>
   \<not> NVGImage_needsUpdate example_loaded 10 10 \<and>
   NVGImage_needsUpdate (NVGImage_setDirty example_loaded) 10 10 \<and>
   loadJUCEImage 0 (\<lambda>b. 1) (Some 1) example_image (NVGImage_setDirty example_loaded) =
     Some (NVGImage_setDirty example_loaded) \<and>
   NVGImage_isValid (NVGImage_setDirty example_loaded) \<and>
   NVGImage_create 0 (\<lambda>b. 1) (Some 1) example_image = Some example_loaded \<and>
   NVGImage_needsUpdate
     (fst (NVGImage_assign (NVGImage_setDirty example_loaded) example_loaded)) 10 10 \<and>
   \<not> NVGFramebuffer_needsUpdate
        (renderToFramebuffer (Some 5) (Some 1) 10 10
          (NVGFramebuffer_setDirty
            (renderToFramebuffer (Some 5) (Some 1) 10 10 (NVGFramebuffer_new None 0 0)))) 10 10"
  by (simp add: NVGImage_needsUpdate_def NVGImage_new_def loadJUCEImage_def example_image_def
      new_SubImage_def getBounds_def example_loaded_def NVGImage_setDirty_def NVGImage_isValid_def
      NVGFramebuffer_needsUpdate_def renderToFramebuffer_def bind_fb_def
      NVGFramebuffer_setDirty_def NVGFramebuffer_new_def NVGImage_create_def
      NVGImage_assign_def)

theorem NVGImage_stays_dirty_witness:
  "loadJUCEImage 0 (\<lambda>b. 1) (Some 1) example_image (NVGImage_setDirty example_loaded) =
     Some (NVGImage_setDirty example_loaded) \<and>
   NVGImage_needsUpdate (NVGImage_setDirty example_loaded) 10 10"
  using NVGImage_stays_dirty by blast

section \<open>Theorems about the invalidation bridge\<close>

lemma getUnion_edges:
  assumes "\<not> isEmpty a" "\<not> isEmpty b"
  shows "r_x (getUnion a b) = min (r_x a) (r_x b)"
    and "r_y (getUnion a b) = min (r_y a) (r_y b)"
    and "getRight (getUnion a b) = max (getRight a) (getRight b)"
    and "getBottom (getUnion a b) = max (getBottom a) (getBottom b)"
  using assms by (simp_all add: getUnion_def Let_def getRight_def getBottom_def)

lemma getUnion_not_empty:
  assumes "\<not> isEmpty a" "\<not> isEmpty b"
  shows "\<not> isEmpty (getUnion a b)"
  using assms by (simp add: getUnion_def Let_def isEmpty_def)

lemma rect_eqI:
  fixes a b :: rect
  assumes "r_x a = r_x b" "r_y a = r_y b" "getRight a = getRight b" "getBottom a = getBottom b"
  shows "a = b"
  using assms by (cases a, cases b) (simp add: getRight_def getBottom_def)

lemma getUnion_commute_nonempty:
  assumes b: "\<not> isEmpty b" and c: "\<not> isEmpty c"
  shows "getUnion b c = getUnion c b"
  by (rule rect_eqI)
    (simp_all only: getUnion_edges [OF b c] getUnion_edges [OF c b] min.commute max.commute)

lemma getUnion_left_commute_nonempty:
  assumes a: "\<not> isEmpty a" and b: "\<not> isEmpty b" and c: "\<not> isEmpty c"
  shows "getUnion (getUnion a b) c = getUnion (getUnion a c) b"
proof -
  note ab = getUnion_not_empty [OF a b] and ac = getUnion_not_empty [OF a c]
  show ?thesis
    by (rule rect_eqI)
      (simp_all add: getUnion_edges [OF ab c] getUnion_edges [OF ac b]
        getUnion_edges [OF a b] getUnion_edges [OF a c] ac_simps)
qed

lemma getUnion_empty_right: "isEmpty b \<Longrightarrow> getUnion a b = a"
  by (simp add: getUnion_def)

lemma getUnion_left_commute: "getUnion (getUnion a b) c = getUnion (getUnion a c) b"
proof (cases "isEmpty b")
  case True
  then show ?thesis by (simp add: getUnion_empty_right)
next
  case b: False
  show ?thesis
  proof (cases "isEmpty c")
    case True
    then show ?thesis by (simp add: getUnion_empty_right)
  next
    case c: False
    show ?thesis
    proof (cases "isEmpty a")
      case True
      with b c getUnion_commute_nonempty [OF b c] show ?thesis by (simp add: getUnion_def)
    next
      case False
      from getUnion_left_commute_nonempty [OF False b c] show ?thesis .
    qed
  qed
qed

lemma invalidate_calls_fold: "invalidate_calls calls surface = fold call_step calls surface"
  by (induction calls arbitrary: surface) (auto simp add: call_step_def)

lemma call_step_commute: "call_step c (call_step d surface) = call_step d (call_step c surface)"
  by (simp add: call_step_def invalidate_def invalidateArea_def Let_def getUnion_left_commute)

lemma invalidate_calls_permute:
  assumes "mset calls = mset calls'"
  shows "invalidate_calls calls surface = invalidate_calls calls' surface"
proof -
  have "fold call_step calls = fold call_step calls'"
    by (rule fold_multiset_equiv [OF _ assms]) (simp add: fun_eq_iff call_step_commute)
  then show ?thesis by (simp add: invalidate_calls_fold)
qed

lemma invalidArea_invalidate_calls:
  "invalidArea (invalidate_calls calls surface) =
     foldl getUnion (invalidArea surface) (contributions calls)"
proof (induction calls arbitrary: surface)
  case Nil
  then show ?case by (simp add: contributions_def)
next
  case (Cons c calls)
  obtain l r where c: "c = (l, r)" by (cases c)
  show ?case
    by (simp add: c Cons.IH invalidate_def invalidateArea_def Let_def contributions_def counts_def)
qed

lemma bounding_box_single: "bounding_box [a] = a"
  by (simp add: bounding_box_def getRight_def getBottom_def)

lemma bounding_box_absorb:
  assumes "\<not> isEmpty a" "\<not> isEmpty b"
  shows "bounding_box (getUnion a b # rs) = bounding_box (a # b # rs)"
  by (simp add: bounding_box_def getUnion_edges [OF assms] Min.set_eq_fold Max.set_eq_fold ac_simps
      del: list.set)

lemma foldl_getUnion_nonempty:
  "\<not> isEmpty a \<Longrightarrow>
     foldl getUnion a rs = bounding_box (a # filter (\<lambda>r. \<not> isEmpty r) rs)"
proof (induction rs arbitrary: a)
  case Nil
  then show ?case by (simp add: bounding_box_single)
next
  case (Cons r rs)
  show ?case
  proof (cases "isEmpty r")
    case True
    with Cons show ?thesis by (simp add: getUnion_empty_right)
  next
    case False
    from Cons.IH [OF getUnion_not_empty [OF Cons.prems False]] False
    show ?thesis by (simp add: bounding_box_absorb [OF Cons.prems False])
  qed
qed

lemma foldl_getUnion_empty:
  "isEmpty a \<Longrightarrow>
     foldl getUnion a rs =
       (case filter (\<lambda>r. \<not> isEmpty r) rs of [] \<Rightarrow> a | c # cs \<Rightarrow> bounding_box (c # cs))"
proof (induction rs)
  case Nil
  then show ?case by simp
next
  case (Cons r rs)
  show ?case
  proof (cases "isEmpty r")
    case True
    with Cons show ?thesis by (simp add: getUnion_empty_right)
  next
    case False
    with Cons.prems have "getUnion a r = r" by (simp add: getUnion_def)
    with False show ?thesis by (simp add: foldl_getUnion_nonempty)
  qed
qed

text \<open>
  Claim C5 says that the accumulated dirty rectangle equals the bounding union of the
  requested rectangles, each intersected with the bounds of its component. That fails
  already for one call: \<open>invalidate\<close> grows the clipped rectangle by 2 on every side
  (\<open>b.expanded(2)\<close>) before it reaches the accumulator. A visible component with bounds
  100 by 100 at the origin of the surface, asked for the rectangle 10 by 10 at its
  origin, makes the surface dirty from -2 to 12 in both directions.
\<close>

theorem invalidate_clipped_union_counterexample:
  "invalidArea (invalidate_calls
       [(example_listener, \<lparr>r_x = 0, r_y = 0, r_w = 10, r_h = 10\<rparr>)] cleared_surface)
     = \<lparr>r_x = - 2, r_y = - 2, r_w = 14, r_h = 14\<rparr> \<and>
   bounding_box (clipped [(example_listener, \<lparr>r_x = 0, r_y = 0, r_w = 10, r_h = 10\<rparr>)])
     = \<lparr>r_x = 0, r_y = 0, r_w = 10, r_h = 10\<rparr> \<and>
   invalidArea (invalidate_calls
       [(example_listener, \<lparr>r_x = 0, r_y = 0, r_w = 10, r_h = 10\<rparr>)] cleared_surface)
     \<noteq> bounding_box (clipped [(example_listener, \<lparr>r_x = 0, r_y = 0, r_w = 10, r_h = 10\<rparr>)])"
  by (simp add: invalidate_def invalidateArea_def getUnion_def getIntersection_def isEmpty_def
      expanded_def example_listener_def cleared_surface_def Let_def clipped_def counts_def
      bounding_box_def getRight_def getBottom_def)

text \<open>
  Claim C5, amended. For every sequence of \<open>invalidate\<close> calls on a surface whose
  accumulator was empty, the accumulated dirty rectangle is the bounding box of the
  requested rectangles, each intersected with the bounds of its component, then grown
  by 2 on every side and mapped to the coordinates of the surface (calls whose
  intersection is empty or whose component is not visible contribute nothing, nor does a
  rectangle that is empty on the surface; with no contribution the accumulator stays as
  it was). Whatever the accumulator held, the result does not depend on the order of the
  calls.
\<close>

theorem invalidate_accumulates_bounding_box:
  "(isEmpty (invalidArea surface) \<longrightarrow>
      invalidArea (invalidate_calls calls surface) =
        (case filter (\<lambda>r. \<not> isEmpty r) (contributions calls) of
           [] \<Rightarrow> invalidArea surface
         | c # cs \<Rightarrow> bounding_box (c # cs))) \<and>
   (mset calls' = mset calls \<longrightarrow>
      invalidArea (invalidate_calls calls' surface) =
        invalidArea (invalidate_calls calls surface))"
  by (simp add: invalidArea_invalidate_calls foldl_getUnion_empty
      invalidate_calls_permute [of calls' calls])

theorem invalidate_accumulates_bounding_box_witness:
  "isEmpty (invalidArea cleared_surface) \<and>
   invalidArea (invalidate_calls
       [(example_listener, \<lparr>r_x = 0, r_y = 0, r_w = 10, r_h = 10\<rparr>),
        (example_listener, \<lparr>r_x = 90, r_y = 50, r_w = 20, r_h = 5\<rparr>)] cleared_surface)
     = \<lparr>r_x = - 2, r_y = - 2, r_w = 104, r_h = 59\<rparr> \<and>
   invalidArea (invalidate_calls
       [(example_listener, \<lparr>r_x = 90, r_y = 50, r_w = 20, r_h = 5\<rparr>),
        (example_listener, \<lparr>r_x = 0, r_y = 0, r_w = 10, r_h = 10\<rparr>)] cleared_surface)
     = \<lparr>r_x = - 2, r_y = - 2, r_w = 104, r_h = 59\<rparr>"
  using invalidate_accumulates_bounding_box
    [of cleared_surface
      "[(example_listener, \<lparr>r_x = 0, r_y = 0, r_w = 10, r_h = 10\<rparr>),
        (example_listener, \<lparr>r_x = 90, r_y = 50, r_w = 20, r_h = 5\<rparr>)]"
      "[(example_listener, \<lparr>r_x = 90, r_y = 50, r_w = 20, r_h = 5\<rparr>),
        (example_listener, \<lparr>r_x = 0, r_y = 0, r_w = 10, r_h = 10\<rparr>)]"]
  by (simp add: contributions_def counts_def getIntersection_def isEmpty_def expanded_def
      example_listener_def cleared_surface_def Let_def bounding_box_def getRight_def
      getBottom_def)

end
